theory Spec2Isabelle
  imports Main "HOL-Library.Sublist"
begin

section \<open>Python values that cross the handlers\<close>

text \<open>
  The handlers of \<^verbatim>\<open>app.py\<close> receive decoded JSON (\<^verbatim>\<open>inputs\<close>, \<^verbatim>\<open>event\<close>,
  \<^verbatim>\<open>body\<close>) and hand JSON-shaped values to \<^verbatim>\<open>complete\<close> and \<^verbatim>\<open>client.api_call\<close>.
  A Python \<^verbatim>\<open>dict\<close> is an association list read with \<open>map_of\<close>; a literal keeps its
  keys in the order it is written. JSON numbers are integers here: a float behaves like
  an integer at the two places where the handlers inspect a value (truth test and
  \<^verbatim>\<open>in\<close>).
\<close>

datatype json =
    JNull
  | JBool bool
  | JInt int
  | JStr string
  | JList "json list"
  | JObj "(string \<times> json) list"

type_synonym py_dict = "(string \<times> json) list"

text \<open>
  Exceptions are values. \<open>ExternalError\<close> stands for whatever a collaborator
  (\<^verbatim>\<open>ack\<close>, \<^verbatim>\<open>complete\<close>, \<^verbatim>\<open>client.api_call\<close>) raises, e.g. a \<^verbatim>\<open>SlackApiError\<close>;
  all four are subclasses of Python's \<^verbatim>\<open>Exception\<close>.
\<close>

datatype py_error =
    KeyError string
  | AttributeError
  | TypeError
  | ExternalError string

text \<open>Truth value testing, as \<^verbatim>\<open>if v:\<close> does it.\<close>

fun py_truthy :: "json \<Rightarrow> bool" where
  "py_truthy JNull = False"
| "py_truthy (JBool b) = b"
| "py_truthy (JInt n) = (n \<noteq> 0)"
| "py_truthy (JStr s) = (s \<noteq> [])"
| "py_truthy (JList xs) = (xs \<noteq> [])"
| "py_truthy (JObj d) = (d \<noteq> [])"

text \<open>
  \<^verbatim>\<open>x in c\<close> for a string \<open>x\<close>: element of a list, substring of a string, key of a
  dict; \<^verbatim>\<open>TypeError\<close> (argument is not iterable) for \<^verbatim>\<open>None\<close>, a bool or a number.
\<close>

fun py_in :: "string \<Rightarrow> json \<Rightarrow> py_error + bool" where
  "py_in x (JList xs) = Inr (JStr x \<in> set xs)"
| "py_in x (JStr s) = Inr (sublist x s)"
| "py_in x (JObj d) = Inr (x \<in> fst ` set d)"
| "py_in x JNull = Inl TypeError"
| "py_in x (JBool b) = Inl TypeError"
| "py_in x (JInt n) = Inl TypeError"

text \<open>\<^verbatim>\<open>d[k]\<close> on a dict raises \<^verbatim>\<open>KeyError\<close> when the key is missing.\<close>

definition dict_getitem :: "py_dict \<Rightarrow> string \<Rightarrow> py_error + json" where
  "dict_getitem d k = (case map_of d k of None \<Rightarrow> Inl (KeyError k) | Some v \<Rightarrow> Inr v)"

text \<open>\<^verbatim>\<open>v[k]\<close> with a string key on any value: only a dict can be subscripted so.\<close>

fun py_subscript :: "json \<Rightarrow> string \<Rightarrow> py_error + json" where
  "py_subscript (JObj d) k = dict_getitem d k"
| "py_subscript JNull k = Inl TypeError"
| "py_subscript (JBool b) k = Inl TypeError"
| "py_subscript (JInt n) k = Inl TypeError"
| "py_subscript (JStr s) k = Inl TypeError"
| "py_subscript (JList xs) k = Inl TypeError"

text \<open>\<^verbatim>\<open>d.get(k, default)\<close> on a dict, and on any value: only a dict has the method.\<close>

definition dict_get :: "py_dict \<Rightarrow> string \<Rightarrow> json \<Rightarrow> json" where
  "dict_get d k dflt = (case map_of d k of None \<Rightarrow> dflt | Some v \<Rightarrow> v)"

fun py_get :: "json \<Rightarrow> string \<Rightarrow> json \<Rightarrow> py_error + json" where
  "py_get (JObj d) k dflt = Inr (dict_get d k dflt)"
| "py_get JNull k dflt = Inl AttributeError"
| "py_get (JBool b) k dflt = Inl AttributeError"
| "py_get (JInt n) k dflt = Inl AttributeError"
| "py_get (JStr s) k dflt = Inl AttributeError"
| "py_get (JList xs) k dflt = Inl AttributeError"

text \<open>
  A list comprehension \<^verbatim>\<open>[x for x in xs if p(x)]\<close> whose condition may raise: the
  condition is evaluated element by element and the first exception ends the loop.
\<close>

fun comprehension :: "('a \<Rightarrow> py_error + bool) \<Rightarrow> 'a list \<Rightarrow> py_error + 'a list" where
  "comprehension p [] = Inr []"
| "comprehension p (x # xs) =
     (case p x of
        Inl e \<Rightarrow> Inl e
      | Inr b \<Rightarrow>
          (case comprehension p xs of
             Inl e \<Rightarrow> Inl e
           | Inr ys \<Rightarrow> Inr (if b then x # ys else ys)))"

section \<open>Models\<close>

datatype FilterType = MULTI_SELECT | TOGGLE

fun FilterType_value :: "FilterType \<Rightarrow> string" where
  "FilterType_value MULTI_SELECT = ''multi_select''"
| "FilterType_value TOGGLE = ''toggle''"

text \<open>
  A \<^verbatim>\<open>Song\<close>. The key \<^verbatim>\<open>id\<close> is the field \<open>song_id\<close>; \<^verbatim>\<open>content\<close> is a key that only
  some of the dicts carry, so the field is optional (\<open>None\<close>: the key is absent).
\<close>

record song =
  song_id :: string
  title :: string
  description :: string
  link :: string
  band :: string
  is_single :: bool
  date_updated :: string
  content :: "string option"

section \<open>Data\<close>

definition SONGS :: "song list" where
  \<open>SONGS = [
  \<lparr>song_id = ''pf-001'',
    title = ''Comfortably Numb'',
    description = ''From the album 'The Wall' (1979), features one of David Gilmour's most famous guitar solos'',
    link = ''https://example.com/pinkfloyd/comfortably-numb'',
    band = ''Pink Floyd'',
    is_single = False,
    date_updated = ''2023-01-01'',
    content = Some ''Comfortably Numb is a song by the English rock band Pink Floyd, released on their eleventh studio album, The Wall (1979). It was released as a single in 1980, with "Hey You" as the B-side.The lyrics were written by the bassist, Roger Waters, who recalled his experience of being injected with tranquilisers before a performance in 1977; the music was composed by the band's guitarist, David Gilmour. Waters and Gilmour argued during the recording, with Waters seeking an orchestral arrangement and Gilmour preferring a more stripped-down arrangement. They compromised by combining both versions, and Gilmour said the song was the last time he and Waters were able to work together constructively.''\<rparr>,
  \<lparr>song_id = ''pf-002'',
    title = ''Wish You Were Here'',
    description = ''Title track from the 1975 album, written as a tribute to former band member Syd Barrett'',
    link = ''https://example.com/pinkfloyd/wish-you-were-here'',
    band = ''Pink Floyd'',
    is_single = False,
    date_updated = ''2023-02-01'',
    content = None\<rparr>,
  \<lparr>song_id = ''pf-003'',
    title = ''Time'',
    description = ''From the album 'The Dark Side of the Moon' (1973), known for its iconic clock sound effects'',
    link = ''https://example.com/pinkfloyd/time'',
    band = ''Pink Floyd'',
    is_single = False,
    date_updated = ''2023-03-01'',
    content = None\<rparr>,
  \<lparr>song_id = ''rs-001'',
    title = ''Paint It Black'',
    description = ''Released as a single in 1966, reaching number one on both UK and US charts'',
    link = ''https://example.com/rollingstones/paint-it-black'',
    band = ''Rolling Stones'',
    is_single = True,
    date_updated = ''2023-04-15'',
    content = None\<rparr>,
  \<lparr>song_id = ''rs-002'',
    title = ''Sympathy for the Devil'',
    description = ''From the album 'Beggars Banquet' (1968), one of their most controversial songs'',
    link = ''https://example.com/rollingstones/sympathy-for-the-devil'',
    band = ''Rolling Stones'',
    is_single = False,
    date_updated = ''2023-05-20'',
    content = None\<rparr>,
  \<lparr>song_id = ''beatles-001'',
    title = ''Hey Jude'',
    description = ''Released as a single in 1968, became one of their biggest hits'',
    link = ''https://example.com/beatles/hey-jude'',
    band = ''The Beatles'',
    is_single = True,
    date_updated = ''2023-06-10'',
    content = None\<rparr>,
  \<lparr>song_id = ''beatles-002'',
    title = ''Let It Be'',
    description = ''From the album 'Let It Be' (1970), one of their final singles'',
    link = ''https://example.com/beatles/let-it-be'',
    band = ''The Beatles'',
    is_single = True,
    date_updated = ''2023-07-05'',
    content = None\<rparr>,
  \<lparr>song_id = ''lz-001'',
    title = ''Stairway to Heaven'',
    description = ''From the album 'Led Zeppelin IV' (1971), often cited as one of greatest rock songs of all time'',
    link = ''https://example.com/ledzeppelin/stairway-to-heaven'',
    band = ''Led Zeppelin'',
    is_single = False,
    date_updated = ''2023-08-12'',
    content = None\<rparr>,
  \<lparr>song_id = ''queen-001'',
    title = ''Bohemian Rhapsody'',
    description = ''From the album 'A Night at the Opera' (1975), pioneering song with no chorus'',
    link = ''https://example.com/queen/bohemian-rhapsody'',
    band = ''Queen'',
    is_single = True,
    date_updated = ''2023-09-18'',
    content = Some ''Bohemian Rhapsody can refer to two distinct entities: the iconic song by the British rock band Queen, and the 2018 biographical film about the band and its lead singer, Freddie Mercury.''\<rparr>,
  \<lparr>song_id = ''acdc-001'',
    title = ''Back in Black'',
    description = ''Title track from the 1980 album, written as a tribute to deceased singer Bon Scott'',
    link = ''https://example.com/acdc/back-in-black'',
    band = ''AC/DC'',
    is_single = True,
    date_updated = ''2023-10-25'',
    content = Some ''Back in Black is the seventh studio album by Australian rock band AC/DC, released on 25 July 1980, by Albert Productions and Atlantic Records. It was the band's first album to feature Brian Johnson as lead singer, following the death of their previous vocalist Bon Scott. After the commercial breakthrough of their 1979 album Highway to Hell, AC/DC was planning to record a follow-up, but in February 1980, Scott died from alcohol poisoning after a drinking binge. The remaining members of the group considered disbanding, but ultimately chose to continue on and recruited Johnson, who had previously been the vocalist for Geordie.''\<rparr>
  ]\<close>

section \<open>Application\<close>

text \<open>
  What a handler does to the outside is a trace of calls, followed by the exception that
  leaves the handler, if any (\<open>None\<close>: the handler returned).
\<close>

datatype event =
    Ack
  | Complete json
  | LogInfo string
  | LogError string
  | ApiCall string json

type_synonym run = "event list \<times> py_error option"

text \<open>
  The collaborators the handlers are given, and the two library behaviours the source
  leaves open: whether a call raises (\<open>None\<close>: it returns), how \<^verbatim>\<open>json.dumps\<close> and
  \<^verbatim>\<open>str\<close> print, and in which order a \<^verbatim>\<open>set\<close> built from a sequence of strings is
  iterated.
\<close>

record runtime =
  ack_raises :: "py_error option"
  complete_raises :: "json \<Rightarrow> py_error option"
  api_call_raises :: "string \<Rightarrow> json \<Rightarrow> py_error option"
  json_dumps :: "json \<Rightarrow> string"
  str_of :: "py_error \<Rightarrow> string"
  set_iter :: "string list \<Rightarrow> string list"

text \<open>\<^verbatim>\<open>try: body  finally: ack()\<close>: \<^verbatim>\<open>ack\<close> is called however the body ends; an
  exception of \<^verbatim>\<open>ack\<close> itself replaces the body's.\<close>

definition finally_ack :: "runtime \<Rightarrow> run \<Rightarrow> run" where
  "finally_ack rt body =
     (fst body @ [Ack], case ack_raises rt of Some e \<Rightarrow> Some e | None \<Rightarrow> snd body)"

subsection \<open>The search function\<close>

text \<open>Lines 195 to 201: the two narrowing steps over the catalog.\<close>

definition filtered_songs :: "song list \<Rightarrow> json \<Rightarrow> json \<Rightarrow> py_error + song list" where
  "filtered_songs catalog singles_filter bands_filter =
     (let songs = (if py_truthy singles_filter then filter is_single catalog else catalog)
      in if py_truthy bands_filter
         then comprehension (\<lambda>song. py_in (band song) bands_filter) songs
         else Inr songs)"

text \<open>Line 204: the dict built for one song.\<close>

definition search_result :: "song \<Rightarrow> py_dict" where
  "search_result song =
     [(''title'', JStr (title song)),
      (''description'', JStr (description song)),
      (''link'', JStr (link song)),
      (''date_updated'', JStr (date_updated song)),
      (''external_ref'', JObj [(''id'', JStr (song_id song))])]
     @ (case content song of Some c \<Rightarrow> [(''content'', JStr c)] | None \<Rightarrow> [])"

text \<open>Lines 195 to 206: the value of \<^verbatim>\<open>results\<close>, or the exception raised on the way.\<close>

definition results :: "song list \<Rightarrow> json \<Rightarrow> json \<Rightarrow> py_error + json list" where
  "results catalog singles_filter bands_filter =
     (case filtered_songs catalog singles_filter bands_filter of
        Inl e \<Rightarrow> Inl e
      | Inr songs \<Rightarrow> Inr (map (\<lambda>song. JObj (search_result song)) songs))"

text \<open>The body of the \<^verbatim>\<open>try\<close>, lines 195 to 209.\<close>

definition search_try :: "runtime \<Rightarrow> song list \<Rightarrow> json \<Rightarrow> json \<Rightarrow> run" where
  "search_try rt catalog singles_filter bands_filter =
     (case results catalog singles_filter bands_filter of
        Inl e \<Rightarrow> ([], Some e)
      | Inr rs \<Rightarrow>
          ([LogInfo (''Generated results: '' @ json_dumps rt (JList rs)),
            Complete (JObj [(''search_result'', JList rs)])],
           complete_raises rt (JObj [(''search_result'', JList rs)])))"

text \<open>
  The handler. The module's global \<^verbatim>\<open>SONGS\<close> is the argument \<open>catalog\<close>. The two
  reads of \<^verbatim>\<open>inputs["filters"]\<close> come before the \<^verbatim>\<open>try\<close>.
\<close>

definition handle_search_step_event :: "runtime \<Rightarrow> song list \<Rightarrow> py_dict \<Rightarrow> run" where
  "handle_search_step_event rt catalog inputs =
     (case dict_getitem inputs ''filters'' of
        Inl e \<Rightarrow> ([], Some e)
      | Inr filters \<Rightarrow>
          (case py_get filters ''is_single'' (JBool False) of
             Inl e \<Rightarrow> ([], Some e)
           | Inr singles_filter \<Rightarrow>
               (case py_get filters ''bands'' (JList []) of
                  Inl e \<Rightarrow> ([], Some e)
                | Inr bands_filter \<Rightarrow>
                    finally_ack rt (search_try rt catalog singles_filter bands_filter))))"

text \<open>
  The selection-to-songs function the handler computes when \<^verbatim>\<open>inputs["filters"]\<close> is the
  dict \<open>sel\<close>: lines 191 and 192 followed by lines 195 to 201.
\<close>

definition search :: "song list \<Rightarrow> py_dict \<Rightarrow> py_error + song list" where
  "search catalog sel =
     filtered_songs catalog
       (dict_get sel ''is_single'' (JBool False))
       (dict_get sel ''bands'' (JList []))"

subsection \<open>The filters function\<close>

text \<open>Line 222: the set of bands, in the order the set is iterated.\<close>

definition unique_bands :: "runtime \<Rightarrow> song list \<Rightarrow> string list" where
  "unique_bands rt catalog = set_iter rt (map band catalog)"

text \<open>
  An iteration order of a Python set lists every element once: what \<open>set_iter\<close> has to
  satisfy on the sequence \<open>xs\<close> the set is built from.
\<close>

definition iterates_set :: "runtime \<Rightarrow> string list \<Rightarrow> bool" where
  "iterates_set rt xs \<longleftrightarrow> distinct (set_iter rt xs) \<and> set (set_iter rt xs) = set xs"

text \<open>Line 229.\<close>

definition band_options :: "runtime \<Rightarrow> song list \<Rightarrow> json list" where
  "band_options rt catalog =
     map (\<lambda>band. JObj [(''name'', JStr band), (''value'', JStr band)]) (unique_bands rt catalog)"

text \<open>Lines 224 to 236.\<close>

definition filters :: "runtime \<Rightarrow> song list \<Rightarrow> json list" where
  "filters rt catalog =
     [JObj [(''name'', JStr ''bands''),
            (''display_name'', JStr ''Bands''),
            (''type'', JStr (FilterType_value MULTI_SELECT)),
            (''options'', JList (band_options rt catalog))],
      JObj [(''name'', JStr ''is_single''),
            (''display_name'', JStr ''Singles Only''),
            (''type'', JStr (FilterType_value TOGGLE))]]"

definition handle_filters_step_event :: "runtime \<Rightarrow> song list \<Rightarrow> py_dict \<Rightarrow> run" where
  "handle_filters_step_event rt catalog inputs =
     finally_ack rt
       ([Complete (JObj [(''filters'', JList (filters rt catalog))])],
        complete_raises rt (JObj [(''filters'', JList (filters rt catalog))]))"

subsection \<open>The entity details event\<close>

text \<open>Lines 247 to 275: the payload, or the exception of a failed subscript.\<close>

definition payload :: "py_dict \<Rightarrow> py_error + json" where
  "payload event =
     (case dict_getitem event ''trigger_id'' of
        Inl e \<Rightarrow> Inl e
      | Inr trigger_id \<Rightarrow>
          (case dict_getitem event ''link'' of
             Inl e \<Rightarrow> Inl e
           | Inr lnk \<Rightarrow>
               (case py_subscript lnk ''url'' of
                  Inl e \<Rightarrow> Inl e
                | Inr url \<Rightarrow>
                    Inr (JObj
                      [(''trigger_id'', trigger_id),
                       (''metadata'', JObj
                          [(''entity_type'', JStr ''slack#/entities/item''),
                           (''url'', url),
                           (''external_ref'', JObj [(''id'', JStr ''123'')]),
                           (''entity_payload'', JObj
                              [(''attributes'', JObj
                                  [(''title'', JObj
                                      [(''text'', JStr ''hello world''),
                                       (''edit'', JObj
                                          [(''enabled'', JBool True),
                                           (''text'', JObj [(''max_length'', JInt 50)])])])]),
                               (''custom_fields'', JList
                                  [JObj [(''key'', JStr ''description''),
                                         (''label'', JStr ''Description''),
                                         (''type'', JStr ''string''),
                                         (''value'', JStr ''This is a description'')]])])])]))))"

text \<open>The handler: two log lines, the payload, the call inside \<^verbatim>\<open>try ... except Exception\<close>.\<close>

definition handle_flexpane_event :: "runtime \<Rightarrow> py_dict \<Rightarrow> json \<Rightarrow> run" where
  "handle_flexpane_event rt event body =
     (let logged =
        [LogInfo (''entity_details_requested body: '' @ json_dumps rt body),
         LogInfo (''entity_details_requested event: '' @ json_dumps rt (JObj event))]
      in case payload event of
           Inl e \<Rightarrow> (logged, Some e)
         | Inr p \<Rightarrow>
             (case api_call_raises rt ''entity.presentDetails'' p of
                None \<Rightarrow> (logged @ [ApiCall ''entity.presentDetails'' p], None)
              | Some e \<Rightarrow>
                  (logged @ [ApiCall ''entity.presentDetails'' p,
                             LogError (''Error calling entity.presentDetails: '' @ str_of rt e)],
                   None)))"

section \<open>Notions of the specification\<close>

text \<open>
  The specification's reading of a selection: the singles toggle constrains a song only
  when it is on, the band set only when it is non-empty; both constraints hold together.
\<close>

definition selected :: "bool \<Rightarrow> json list \<Rightarrow> song \<Rightarrow> bool" where
  "selected single_on bands s \<longleftrightarrow>
     (single_on \<longrightarrow> is_single s) \<and> (bands \<noteq> [] \<longrightarrow> JStr (band s) \<in> set bands)"

text \<open>A value \<^verbatim>\<open>in\<close> accepts on its right-hand side.\<close>

fun iterable :: "json \<Rightarrow> bool" where
  "iterable (JList xs) = True"
| "iterable (JStr s) = True"
| "iterable (JObj d) = True"
| "iterable JNull = False"
| "iterable (JBool b) = False"
| "iterable (JInt n) = False"

text \<open>\<^verbatim>\<open>event["link"]["url"]\<close>, or the exception of the failed subscript.\<close>

definition link_url :: "py_dict \<Rightarrow> py_error + json" where
  "link_url event =
     (case dict_getitem event ''link'' of Inl e \<Rightarrow> Inl e | Inr lnk \<Rightarrow> py_subscript lnk ''url'')"

text \<open>The payloads a run forwarded to the presentation API.\<close>

fun forwarded :: "event list \<Rightarrow> json list" where
  "forwarded [] = []"
| "forwarded (ApiCall m p # es) = p # forwarded es"
| "forwarded (e # es) = forwarded es"

text \<open>
  A runtime in which no collaborator raises, a set is iterated as \<open>remdups\<close> lists the
  inserted sequence, and printing is silent; and one whose presentation API always fails.
\<close>

definition quiet :: runtime where
  "quiet = \<lparr>ack_raises = None, complete_raises = (\<lambda>out. None),
     api_call_raises = (\<lambda>m p. None), json_dumps = (\<lambda>v. []), str_of = (\<lambda>e. []),
     set_iter = remdups\<rparr>"

definition api_down :: runtime where
  "api_down = quiet\<lparr>api_call_raises := (\<lambda>m p. Some (ExternalError ''not_authed''))\<rparr>"

section \<open>Shared lemmas\<close>

lemma map_band_SONGS:
  "map band SONGS = [''Pink Floyd'', ''Pink Floyd'', ''Pink Floyd'', ''Rolling Stones'',
     ''Rolling Stones'', ''The Beatles'', ''The Beatles'', ''Led Zeppelin'', ''Queen'', ''AC/DC'']"
  by (simp add: SONGS_def)

text \<open>A comprehension whose condition never raises is a \<open>filter\<close>.\<close>

lemma comprehension_total:
  "(\<And>x. x \<in> set xs \<Longrightarrow> p x = Inr (q x)) \<Longrightarrow> comprehension p xs = Inr (filter q xs)"
  by (induction xs) auto

lemma filtered_songs_list:
  "filtered_songs catalog sf (JList bs) = Inr (filter (selected (py_truthy sf) bs) catalog)"
  by (auto simp: filtered_songs_def selected_def comprehension_total intro: filter_cong)

lemma filtered_songs_iterable:
  assumes "py_truthy bf \<longrightarrow> iterable bf"
  shows "\<exists>songs. filtered_songs catalog sf bf = Inr songs"
proof (cases "py_truthy bf")
  case False
  then show ?thesis by (simp add: filtered_songs_def)
next
  case True
  with assms have "iterable bf" by simp
  then obtain q where "\<And>x. py_in x bf = Inr (q x)"
    by (cases bf) auto
  then have c: "\<And>xs. comprehension (\<lambda>song. py_in (band song) bf) xs
                 = Inr (filter (\<lambda>song. q (band song)) xs)"
    by (simp add: comprehension_total)
  show ?thesis by (simp add: filtered_songs_def c)
qed

text \<open>With a dict under \<^verbatim>\<open>"filters"\<close> the handler reaches its \<^verbatim>\<open>try\<close>.\<close>

lemma handle_search_dict:
  assumes "dict_getitem inputs ''filters'' = Inr (JObj sel)"
  shows "handle_search_step_event rt catalog inputs =
           finally_ack rt (search_try rt catalog
             (dict_get sel ''is_single'' (JBool False)) (dict_get sel ''bands'' (JList [])))"
  using assms by (simp add: handle_search_step_event_def)

lemma dict_get_append_default:
  "dict_get (sel @ [(k, dflt)] @ rest) k dflt = dict_get sel k dflt"
  by (simp add: dict_get_def map_add_def split: option.splits)

text \<open>The option list has one entry per element of the iterated set.\<close>

lemma band_options_length:
  assumes "iterates_set rt (map band catalog)"
  shows "length (band_options rt catalog) = card (band ` set catalog)"
proof -
  have "length (band_options rt catalog) = length (set_iter rt (map band catalog))"
    by (simp add: band_options_def unique_bands_def)
  also have "\<dots> = card (set (set_iter rt (map band catalog)))"
    using assms distinct_card [of "set_iter rt (map band catalog)"]
    by (simp only: iterates_set_def)
  also have "\<dots> = card (band ` set catalog)"
    using assms by (simp add: iterates_set_def)
  finally show ?thesis .
qed

lemma card_bands_SONGS: "card (band ` set SONGS) = 6"
proof -
  have "card (band ` set SONGS) = length (remdups (map band SONGS))"
    by (simp add: length_remdups_card_conv)
  also have "\<dots> = 6"
    by (simp add: map_band_SONGS)
  finally show ?thesis .
qed

lemma iterates_set_quiet: "iterates_set quiet xs"
  by (simp add: iterates_set_def quiet_def)

text \<open>The details handler forwards its payload once, when the payload could be built.\<close>

lemma forwarded_handle_flexpane_event:
  "forwarded (fst (handle_flexpane_event rt event body)) =
     (case payload event of Inl e \<Rightarrow> [] | Inr p \<Rightarrow> [p])"
  by (simp add: handle_flexpane_event_def Let_def split: sum.splits option.splits)

section \<open>The query engine\<close>

text \<open>
  C1. For a selection \<open>sel\<close> (the dict under \<^verbatim>\<open>"filters"\<close>) whose \<^verbatim>\<open>bands\<close> value is
  absent or a list \<open>bs\<close>, the search returns exactly the catalog songs that satisfy the
  conjunction of the active filters, in catalog order: the singles constraint applies
  when the \<^verbatim>\<open>is_single\<close> value is truthy, the band constraint when \<open>bs\<close> is non-empty, and
  an absent, false or empty value constrains nothing. These songs, projected, are what
  the handler passes to \<^verbatim>\<open>complete\<close>. The empty selection returns the whole catalog.
\<close>

theorem search_conjunction:
  assumes filters: "dict_getitem inputs ''filters'' = Inr (JObj sel)"
    and bands: "map_of sel ''bands'' = None \<and> bs = [] \<or> map_of sel ''bands'' = Some (JList bs)"
  shows "search catalog sel =
           Inr (filter (selected (py_truthy (dict_get sel ''is_single'' (JBool False))) bs) catalog)
         \<and> Complete (JObj [(''search_result'', JList (map (\<lambda>song. JObj (search_result song))
              (filter (selected (py_truthy (dict_get sel ''is_single'' (JBool False))) bs) catalog)))])
             \<in> set (fst (handle_search_step_event rt catalog inputs))
         \<and> search catalog [] = Inr catalog"
proof -
  have b: "dict_get sel ''bands'' (JList []) = JList bs"
    using bands by (auto simp: dict_get_def)
  have s: "search catalog sel =
      Inr (filter (selected (py_truthy (dict_get sel ''is_single'' (JBool False))) bs) catalog)"
    by (simp add: search_def b filtered_songs_list)
  have c: "Complete (JObj [(''search_result'', JList (map (\<lambda>song. JObj (search_result song))
              (filter (selected (py_truthy (dict_get sel ''is_single'' (JBool False))) bs) catalog)))])
             \<in> set (fst (handle_search_step_event rt catalog inputs))"
    by (simp add: handle_search_dict [OF filters] finally_ack_def search_try_def results_def
        b filtered_songs_list)
  have e: "search catalog [] = Inr catalog"
    by (simp add: search_def dict_get_def filtered_songs_def)
  from s c e show ?thesis by blast
qed

text \<open>Singles among Queen and Pink Floyd in the seeded catalog: only the ninth song.\<close>

theorem search_conjunction_witness:
  "search SONGS [(''is_single'', JBool True), (''bands'', JList [JStr ''Queen'', JStr ''Pink Floyd''])]
     = Inr [SONGS ! 8]"
proof -
  let ?bs = "[JStr ''Queen'', JStr ''Pink Floyd'']"
  let ?sel = "[(''is_single'', JBool True), (''bands'', JList ?bs)]"
  have f: "dict_getitem [(''filters'', JObj ?sel)] ''filters'' = Inr (JObj ?sel)"
    by (simp add: dict_getitem_def)
  have b: "map_of ?sel ''bands'' = None \<and> ?bs = [] \<or> map_of ?sel ''bands'' = Some (JList ?bs)"
    by simp
  have "search SONGS ?sel =
      Inr (filter (selected (py_truthy (dict_get ?sel ''is_single'' (JBool False))) ?bs) SONGS)"
    using search_conjunction [OF f b, of SONGS quiet] by (rule conjunct1)
  also have "\<dots> = Inr [SONGS ! 8]"
    by (simp add: dict_get_def selected_def SONGS_def)
  finally show ?thesis .
qed

text \<open>
  C10. Monotonicity of the bands filter: with the singles selection fixed, a non-empty
  band list \<open>S\<close> and a list \<open>S'\<close> that contains every element of \<open>S\<close>, the search with
  \<open>S\<close> and the search with \<open>S'\<close> both return; every song returned for \<open>S\<close> is returned
  for \<open>S'\<close>, and the songs (and the result dicts) for \<open>S\<close> are a subsequence of those
  for \<open>S'\<close>.
\<close>

theorem bands_monotone:
  assumes "S \<noteq> []" and "set S \<subseteq> set S'"
  shows "\<exists>xs ys. filtered_songs catalog sf (JList S) = Inr xs
           \<and> filtered_songs catalog sf (JList S') = Inr ys
           \<and> subseq xs ys \<and> set xs \<subseteq> set ys
           \<and> results catalog sf (JList S) = Inr (map (\<lambda>song. JObj (search_result song)) xs)
           \<and> results catalog sf (JList S') = Inr (map (\<lambda>song. JObj (search_result song)) ys)
           \<and> subseq (map (\<lambda>song. JObj (search_result song)) xs)
                      (map (\<lambda>song. JObj (search_result song)) ys)"
proof -
  let ?P = "selected (py_truthy sf) S" and ?Q = "selected (py_truthy sf) S'"
  let ?xs = "filter ?P catalog" and ?ys = "filter ?Q catalog"
  have imp: "?P s \<Longrightarrow> ?Q s" for s
    using assms by (auto simp: selected_def)
  have "?xs = filter ?P ?ys"
    by (auto simp: imp intro: filter_cong)
  then have sub: "subseq ?xs ?ys"
    by (metis subseq_filter_left)
  have incl: "set ?xs \<subseteq> set ?ys"
    using imp by auto
  have "subseq (map (\<lambda>song. JObj (search_result song)) ?xs)
               (map (\<lambda>song. JObj (search_result song)) ?ys)"
    using sub by (rule subseq_map)
  with sub incl show ?thesis
    by (simp add: results_def filtered_songs_list)
qed

theorem bands_monotone_witness:
  "\<exists>xs ys. filtered_songs SONGS (JBool True) (JList [JStr ''Queen'']) = Inr xs
       \<and> filtered_songs SONGS (JBool True) (JList [JStr ''AC/DC'', JStr ''Queen'']) = Inr ys
       \<and> subseq xs ys \<and> set xs \<subseteq> set ys"
proof -
  have n: "[JStr ''Queen''] \<noteq> []" by simp
  have s: "set [JStr ''Queen''] \<subseteq> set [JStr ''AC/DC'', JStr ''Queen'']" by simp
  from bands_monotone [OF n s, of SONGS "JBool True"] show ?thesis by blast
qed

text \<open>
  C6, as the code has it. For a selection that is a dict: a missing \<^verbatim>\<open>is_single\<close> or
  \<^verbatim>\<open>bands\<close> key reads as its default (\<^verbatim>\<open>False\<close>, \<^verbatim>\<open>[]\<close>), so adding the defaults behind
  the selection changes nothing; a key other than these two is ignored; and the search
  raises nothing whenever the \<^verbatim>\<open>bands\<close> value is falsy or can stand on the right of
  \<^verbatim>\<open>in\<close> (a list, a string, a dict). Then the handler returns too, if \<^verbatim>\<open>ack\<close> and
  \<^verbatim>\<open>complete\<close> do. A value of the wrong type is not replaced by the default.
\<close>

theorem search_permissive:
  "search catalog (sel @ [(''is_single'', JBool False), (''bands'', JList [])]) = search catalog sel
   \<and> (k \<noteq> ''is_single'' \<and> k \<noteq> ''bands'' \<longrightarrow> search catalog ((k, v) # sel) = search catalog sel)
   \<and> ((py_truthy (dict_get sel ''bands'' (JList [])) \<longrightarrow> iterable (dict_get sel ''bands'' (JList [])))
        \<longrightarrow> (\<exists>songs. search catalog sel = Inr songs))
   \<and> (dict_getitem inputs ''filters'' = Inr (JObj sel)
        \<and> (py_truthy (dict_get sel ''bands'' (JList [])) \<longrightarrow> iterable (dict_get sel ''bands'' (JList [])))
        \<and> ack_raises rt = None \<and> complete_raises rt = (\<lambda>out. None)
        \<longrightarrow> snd (handle_search_step_event rt catalog inputs) = None)"
proof (intro conjI impI)
  have "dict_get (sel @ [(''is_single'', JBool False), (''bands'', JList [])]) ''is_single'' (JBool False)
          = dict_get sel ''is_single'' (JBool False)"
    using dict_get_append_default [of sel "''is_single''" "JBool False" "[(''bands'', JList [])]"]
    by simp
  moreover have "dict_get (sel @ [(''is_single'', JBool False), (''bands'', JList [])]) ''bands'' (JList [])
          = dict_get sel ''bands'' (JList [])"
    by (simp add: dict_get_def map_add_def split: option.splits)
  ultimately show "search catalog (sel @ [(''is_single'', JBool False), (''bands'', JList [])])
      = search catalog sel"
    by (simp add: search_def)
next
  assume "k \<noteq> ''is_single'' \<and> k \<noteq> ''bands''"
  then show "search catalog ((k, v) # sel) = search catalog sel"
    by (auto simp: search_def dict_get_def)
next
  assume "py_truthy (dict_get sel ''bands'' (JList [])) \<longrightarrow> iterable (dict_get sel ''bands'' (JList []))"
  then show "\<exists>songs. search catalog sel = Inr songs"
    unfolding search_def by (rule filtered_songs_iterable)
next
  assume a: "dict_getitem inputs ''filters'' = Inr (JObj sel)
        \<and> (py_truthy (dict_get sel ''bands'' (JList [])) \<longrightarrow> iterable (dict_get sel ''bands'' (JList [])))
        \<and> ack_raises rt = None \<and> complete_raises rt = (\<lambda>out. None)"
  then obtain songs where
    "filtered_songs catalog (dict_get sel ''is_single'' (JBool False))
       (dict_get sel ''bands'' (JList [])) = Inr songs"
    using filtered_songs_iterable by blast
  with a show "snd (handle_search_step_event rt catalog inputs) = None"
    by (simp add: handle_search_dict finally_ack_def search_try_def results_def)
qed

theorem search_permissive_witness:
  "search SONGS [(''limit'', JInt 3), (''bands'', JStr ''Queen'')] = search SONGS [(''bands'', JStr ''Queen'')]
   \<and> (\<exists>songs. search SONGS [(''bands'', JStr ''Queen'')] = Inr songs)
   \<and> snd (handle_search_step_event quiet SONGS [(''filters'', JObj [(''bands'', JStr ''Queen'')])]) = None"
  using search_permissive [of SONGS "[(''bands'', JStr ''Queen'')]" "''limit''" "JInt 3"
      "[(''filters'', JObj [(''bands'', JStr ''Queen'')])]" quiet]
  by (simp add: dict_get_def dict_getitem_def quiet_def)

text \<open>A number under \<^verbatim>\<open>bands\<close>: the membership test raises \<^verbatim>\<open>TypeError\<close> on the first song.\<close>

theorem search_bands_number_counterexample:
  "handle_search_step_event quiet SONGS [(''filters'', JObj [(''bands'', JInt 5)])]
     = ([Ack], Some TypeError)"
proof -
  obtain s rest where c: "SONGS = s # rest"
    by (simp add: SONGS_def)
  have "filtered_songs SONGS (JBool False) (JInt 5) = Inl TypeError"
    by (simp add: filtered_songs_def c)
  then show ?thesis
    by (simp add: handle_search_step_event_def dict_getitem_def dict_get_def finally_ack_def
        search_try_def results_def quiet_def)
qed

section \<open>The result projector\<close>

text \<open>
  C2, evaluated on the code. The dict built for a song has the keys \<^verbatim>\<open>title\<close>,
  \<^verbatim>\<open>description\<close>, \<^verbatim>\<open>link\<close>, \<^verbatim>\<open>date_updated\<close>, \<^verbatim>\<open>external_ref\<close> and, when the song has
  it, \<^verbatim>\<open>content\<close>. It has no key \<^verbatim>\<open>id\<close> and no key \<^verbatim>\<open>entity_reference\<close>, the two required
  keys of the declared \<^verbatim>\<open>SearchResult\<close> that the literal leaves out; the song's id is
  under \<^verbatim>\<open>external_ref\<close>. \<^verbatim>\<open>band\<close> and \<^verbatim>\<open>is_single\<close> are not keys of it.
\<close>

theorem search_result_keys:
  "map fst (search_result song) =
     [''title'', ''description'', ''link'', ''date_updated'', ''external_ref'']
     @ (case content song of Some c \<Rightarrow> [''content''] | None \<Rightarrow> [])
   \<and> map_of (search_result song) ''id'' = None
   \<and> map_of (search_result song) ''entity_reference'' = None
   \<and> map_of (search_result song) ''external_ref'' = Some (JObj [(''id'', JStr (song_id song))])
   \<and> map_of (search_result song) ''band'' = None
   \<and> map_of (search_result song) ''is_single'' = None"
  by (cases "content song") (simp_all add: search_result_def)

text \<open>
  C7. Projection round trip: the result dict of a song has the key \<^verbatim>\<open>content\<close> exactly
  when the song has it, with the song's text as value; for a song without it the key is
  absent (the lookup finds nothing, neither \<^verbatim>\<open>None\<close> nor an empty string). The results
  of a search are these dicts, one for each song found, in order.
\<close>

theorem content_round_trip:
  "map_of (search_result song) ''content'' = map_option JStr (content song)
   \<and> results catalog sf bf =
       (case filtered_songs catalog sf bf of
          Inl e \<Rightarrow> Inl e
        | Inr songs \<Rightarrow> Inr (map (\<lambda>song. JObj (search_result song)) songs))"
  by (cases "content song") (simp_all add: search_result_def results_def)

section \<open>Acknowledgment\<close>

text \<open>
  The filters handler acknowledges on every path, and so does the search handler once
  it is inside its \<^verbatim>\<open>try\<close>, whatever the collaborators raise.
\<close>

lemma filters_handler_acks:
  "Ack \<in> set (fst (handle_filters_step_event rt catalog inputs))"
  by (simp add: handle_filters_step_event_def finally_ack_def)

lemma search_handler_acks_in_try:
  assumes "dict_getitem inputs ''filters'' = Inr (JObj sel)"
  shows "Ack \<in> set (fst (handle_search_step_event rt catalog inputs))"
  by (simp add: handle_search_dict [OF assms] finally_ack_def)

text \<open>
  C5, evaluated on the code. The two reads of \<^verbatim>\<open>inputs["filters"]\<close> stand before the
  \<^verbatim>\<open>try\<close>: for inputs without the key \<^verbatim>\<open>filters\<close> the search handler ends in a
  \<^verbatim>\<open>KeyError\<close>, for a \<^verbatim>\<open>filters\<close> value of \<^verbatim>\<open>None\<close> in an \<^verbatim>\<open>AttributeError\<close>, and in both
  cases no acknowledgment has been sent.
\<close>

theorem search_without_filters_no_ack:
  "handle_search_step_event rt catalog [] = ([], Some (KeyError ''filters''))
   \<and> handle_search_step_event rt catalog [(''filters'', JNull)] = ([], Some AttributeError)
   \<and> Ack \<notin> set (fst (handle_search_step_event rt catalog []))"
  by (simp add: handle_search_step_event_def dict_getitem_def)

section \<open>The filter registry\<close>

text \<open>
  C3, as the code has it. Whenever the set of bands is iterated element by element,
  the first filter definition carries the option list, the list has one option for each
  distinct band of the catalog, so its length is the number of distinct bands; for the
  seeded catalog that number is 6.
\<close>

theorem band_options_count:
  assumes "iterates_set rt (map band catalog)"
  shows "py_subscript (hd (filters rt catalog)) ''options'' = Inr (JList (band_options rt catalog))
         \<and> length (band_options rt catalog) = card (band ` set catalog)
         \<and> distinct (band_options rt catalog)
         \<and> (catalog = SONGS \<longrightarrow> length (band_options rt catalog) = 6)"
proof -
  have "inj (\<lambda>band. JObj [(''name'', JStr band), (''value'', JStr band)])"
    by (simp add: inj_def)
  then have "distinct (band_options rt catalog)"
    using assms by (simp add: band_options_def unique_bands_def iterates_set_def distinct_map
        inj_on_def)
  moreover have "py_subscript (hd (filters rt catalog)) ''options''
      = Inr (JList (band_options rt catalog))"
    by (simp add: filters_def dict_getitem_def)
  ultimately show ?thesis
    using band_options_length [OF assms] card_bands_SONGS by auto
qed

theorem band_options_count_witness:
  "iterates_set quiet (map band SONGS) \<and> length (band_options quiet SONGS) = 6"
  using band_options_count [of quiet SONGS] iterates_set_quiet by simp

text \<open>The seeded catalog does not give nine options.\<close>

theorem seeded_options_not_nine_counterexample:
  "iterates_set quiet (map band SONGS) \<and> length (band_options quiet SONGS) \<noteq> 9"
  using band_options_length [OF iterates_set_quiet, of SONGS] card_bands_SONGS iterates_set_quiet
  by simp

text \<open>
  C4. The filters are exactly two definitions in a fixed order: first the multi-select
  \<^verbatim>\<open>bands\<close>, whose options have name and value equal to one band each, the bands being
  the distinct bands of the catalog; then the toggle \<^verbatim>\<open>is_single\<close>. For an empty catalog
  the \<^verbatim>\<open>bands\<close> definition is there with no option. The handler does not read its
  inputs: whatever they are, it completes with the filters, acknowledges and returns,
  unless \<^verbatim>\<open>ack\<close> or \<^verbatim>\<open>complete\<close> themselves raise.
\<close>

theorem filters_two_definitions:
  assumes "iterates_set rt (map band catalog)"
  shows "filters rt catalog =
           [JObj [(''name'', JStr ''bands''), (''display_name'', JStr ''Bands''),
                  (''type'', JStr ''multi_select''),
                  (''options'', JList (map (\<lambda>b. JObj [(''name'', JStr b), (''value'', JStr b)])
                                        (unique_bands rt catalog)))],
            JObj [(''name'', JStr ''is_single''), (''display_name'', JStr ''Singles Only''),
                  (''type'', JStr ''toggle'')]]
         \<and> distinct (unique_bands rt catalog)
         \<and> set (unique_bands rt catalog) = band ` set catalog
         \<and> (catalog = [] \<longrightarrow> unique_bands rt catalog = [])
         \<and> (ack_raises rt = None
              \<and> complete_raises rt (JObj [(''filters'', JList (filters rt catalog))]) = None
            \<longrightarrow> handle_filters_step_event rt catalog inputs
                  = ([Complete (JObj [(''filters'', JList (filters rt catalog))]), Ack], None))"
  using assms
  by (auto simp: filters_def band_options_def unique_bands_def iterates_set_def
      handle_filters_step_event_def finally_ack_def)

theorem filters_two_definitions_witness:
  "filters quiet SONGS =
     [JObj [(''name'', JStr ''bands''), (''display_name'', JStr ''Bands''),
            (''type'', JStr ''multi_select''),
            (''options'', JList
               [JObj [(''name'', JStr ''Pink Floyd''), (''value'', JStr ''Pink Floyd'')],
                JObj [(''name'', JStr ''Rolling Stones''), (''value'', JStr ''Rolling Stones'')],
                JObj [(''name'', JStr ''The Beatles''), (''value'', JStr ''The Beatles'')],
                JObj [(''name'', JStr ''Led Zeppelin''), (''value'', JStr ''Led Zeppelin'')],
                JObj [(''name'', JStr ''Queen''), (''value'', JStr ''Queen'')],
                JObj [(''name'', JStr ''AC/DC''), (''value'', JStr ''AC/DC'')]])],
      JObj [(''name'', JStr ''is_single''), (''display_name'', JStr ''Singles Only''),
            (''type'', JStr ''toggle'')]]
   \<and> unique_bands quiet [] = []
   \<and> handle_filters_step_event quiet [] [(''anything'', JInt 1)]
       = ([Complete (JObj [(''filters'', JList (filters quiet []))]), Ack], None)"
proof -
  have u: "unique_bands quiet SONGS =
      [''Pink Floyd'', ''Rolling Stones'', ''The Beatles'', ''Led Zeppelin'', ''Queen'', ''AC/DC'']"
    by (simp add: unique_bands_def quiet_def map_band_SONGS)
  have q: "ack_raises quiet = None" "complete_raises quiet out = None" for out
    by (simp_all add: quiet_def)
  from filters_two_definitions [OF iterates_set_quiet, of SONGS]
       filters_two_definitions [OF iterates_set_quiet, of "[]" "[(''anything'', JInt 1)]"]
  show ?thesis
    by (simp add: u q)
qed

section \<open>The entity details event\<close>

text \<open>
  C8. The payload is built from \<^verbatim>\<open>trigger_id\<close> and the link's \<^verbatim>\<open>url\<close> alone: two events
  that agree on these two (whatever their \<^verbatim>\<open>external_ref\<close>, their other keys and the
  bodies they come with) give the same payload, or fail with the same exception, and the
  handler forwards the same payloads for both. For every event the payload, once its two
  subscripts succeed, is the fixed template around \<^verbatim>\<open>trigger_id\<close> and \<^verbatim>\<open>url\<close>: the
  placeholder \<^verbatim>\<open>external_ref\<close> with id \<^verbatim>\<open>123\<close>, the title \<^verbatim>\<open>hello world\<close> and the
  description \<^verbatim>\<open>This is a description\<close>, with nothing of the catalog or of the event's
  own \<^verbatim>\<open>external_ref\<close> in it; and that payload is what the handler forwards, once.
\<close>

theorem payload_ignores_external_ref:
  assumes "map_of e1 ''trigger_id'' = map_of e2 ''trigger_id''"
    and "link_url e1 = link_url e2"
  shows "payload e1 = payload e2
         \<and> forwarded (fst (handle_flexpane_event rt e1 b1))
             = forwarded (fst (handle_flexpane_event rt e2 b2))
         \<and> payload event =
             (case dict_getitem event ''trigger_id'' of
                Inl e \<Rightarrow> Inl e
              | Inr trigger_id \<Rightarrow>
                  (case link_url event of
                     Inl e \<Rightarrow> Inl e
                   | Inr url \<Rightarrow>
                       Inr (JObj
                         [(''trigger_id'', trigger_id),
                          (''metadata'', JObj
                             [(''entity_type'', JStr ''slack#/entities/item''),
                              (''url'', url),
                              (''external_ref'', JObj [(''id'', JStr ''123'')]),
                              (''entity_payload'', JObj
                                 [(''attributes'', JObj
                                     [(''title'', JObj
                                         [(''text'', JStr ''hello world''),
                                          (''edit'', JObj
                                             [(''enabled'', JBool True),
                                              (''text'', JObj [(''max_length'', JInt 50)])])])]),
                                  (''custom_fields'', JList
                                     [JObj [(''key'', JStr ''description''),
                                            (''label'', JStr ''Description''),
                                            (''type'', JStr ''string''),
                                            (''value'', JStr ''This is a description'')]])])])])))
         \<and> forwarded (fst (handle_flexpane_event rt event body))
             = (case payload event of Inl e \<Rightarrow> [] | Inr p \<Rightarrow> [p])"
proof -
  have same: "payload e1 = payload e2"
    using assms
    by (auto simp: payload_def link_url_def dict_getitem_def split: sum.splits option.splits)
  have built: "payload event =
             (case dict_getitem event ''trigger_id'' of
                Inl e \<Rightarrow> Inl e
              | Inr trigger_id \<Rightarrow>
                  (case link_url event of
                     Inl e \<Rightarrow> Inl e
                   | Inr url \<Rightarrow>
                       Inr (JObj
                         [(''trigger_id'', trigger_id),
                          (''metadata'', JObj
                             [(''entity_type'', JStr ''slack#/entities/item''),
                              (''url'', url),
                              (''external_ref'', JObj [(''id'', JStr ''123'')]),
                              (''entity_payload'', JObj
                                 [(''attributes'', JObj
                                     [(''title'', JObj
                                         [(''text'', JStr ''hello world''),
                                          (''edit'', JObj
                                             [(''enabled'', JBool True),
                                              (''text'', JObj [(''max_length'', JInt 50)])])])]),
                                  (''custom_fields'', JList
                                     [JObj [(''key'', JStr ''description''),
                                            (''label'', JStr ''Description''),
                                            (''type'', JStr ''string''),
                                            (''value'', JStr ''This is a description'')]])])])])))"
    by (simp add: payload_def link_url_def split: sum.splits)
  from same built show ?thesis
    by (simp only: forwarded_handle_flexpane_event simp_thms)
qed

theorem payload_ignores_external_ref_witness:
  "payload [(''trigger_id'', JStr ''t1''), (''link'', JObj [(''url'', JStr ''https://example.com/queen/bohemian-rhapsody'')]),
            (''external_ref'', JObj [(''id'', JStr ''queen-001'')])]
   = payload [(''trigger_id'', JStr ''t1''), (''link'', JObj [(''url'', JStr ''https://example.com/queen/bohemian-rhapsody'')]),
            (''external_ref'', JObj [(''id'', JStr ''acdc-001'')])]
   \<and> forwarded (fst (handle_flexpane_event quiet
         [(''trigger_id'', JStr ''t1''), (''link'', JObj [(''url'', JStr ''https://example.com/queen/bohemian-rhapsody'')]),
          (''external_ref'', JObj [(''id'', JStr ''queen-001'')])] JNull))
       = forwarded (fst (handle_flexpane_event quiet
         [(''trigger_id'', JStr ''t1''), (''link'', JObj [(''url'', JStr ''https://example.com/queen/bohemian-rhapsody'')]),
          (''external_ref'', JObj [(''id'', JStr ''acdc-001'')])] JNull))
   \<and> forwarded (fst (handle_flexpane_event quiet
         [(''trigger_id'', JStr ''t1''), (''link'', JObj [(''url'', JStr ''https://example.com/queen/bohemian-rhapsody'')]),
          (''external_ref'', JObj [(''id'', JStr ''acdc-001'')])] JNull))
       = [JObj
           [(''trigger_id'', JStr ''t1''),
            (''metadata'', JObj
               [(''entity_type'', JStr ''slack#/entities/item''),
                (''url'', JStr ''https://example.com/queen/bohemian-rhapsody''),
                (''external_ref'', JObj [(''id'', JStr ''123'')]),
                (''entity_payload'', JObj
                   [(''attributes'', JObj
                       [(''title'', JObj
                           [(''text'', JStr ''hello world''),
                            (''edit'', JObj
                               [(''enabled'', JBool True),
                                (''text'', JObj [(''max_length'', JInt 50)])])])]),
                    (''custom_fields'', JList
                       [JObj [(''key'', JStr ''description''),
                              (''label'', JStr ''Description''),
                              (''type'', JStr ''string''),
                              (''value'', JStr ''This is a description'')]])])])]]"
proof -
  let ?e1 = "[(''trigger_id'', JStr ''t1''), (''link'', JObj [(''url'', JStr ''https://example.com/queen/bohemian-rhapsody'')]),
            (''external_ref'', JObj [(''id'', JStr ''queen-001'')])]"
  let ?e2 = "[(''trigger_id'', JStr ''t1''), (''link'', JObj [(''url'', JStr ''https://example.com/queen/bohemian-rhapsody'')]),
            (''external_ref'', JObj [(''id'', JStr ''acdc-001'')])]"
  have t: "map_of ?e1 ''trigger_id'' = map_of ?e2 ''trigger_id''"
    by simp
  have u: "link_url ?e1 = link_url ?e2"
    by (simp add: link_url_def dict_getitem_def)
  have g: "dict_getitem ?e2 ''trigger_id'' = Inr (JStr ''t1'')"
    "link_url ?e2 = Inr (JStr ''https://example.com/queen/bohemian-rhapsody'')"
    by (simp_all add: link_url_def dict_getitem_def)
  from payload_ignores_external_ref [OF t u, of quiet JNull JNull ?e2 JNull]
  show ?thesis
    by (simp add: g)
qed

text \<open>
  C9. When the payload has been built and the call of \<^verbatim>\<open>entity.presentDetails\<close> raises an
  exception \<open>e\<close>, the handler logs the error and returns: no exception leaves it.
\<close>

theorem present_details_failure_swallowed:
  assumes "payload event = Inr p"
    and "api_call_raises rt ''entity.presentDetails'' p = Some e"
  shows "snd (handle_flexpane_event rt event body) = None
         \<and> LogError (''Error calling entity.presentDetails: '' @ str_of rt e)
             \<in> set (fst (handle_flexpane_event rt event body))"
  using assms by (simp add: handle_flexpane_event_def Let_def)

theorem present_details_failure_swallowed_witness:
  "snd (handle_flexpane_event api_down
          [(''trigger_id'', JStr ''t1''), (''link'', JObj [(''url'', JStr ''u'')])] JNull) = None
   \<and> LogError (''Error calling entity.presentDetails: '' @ str_of api_down (ExternalError ''not_authed''))
        \<in> set (fst (handle_flexpane_event api_down
          [(''trigger_id'', JStr ''t1''), (''link'', JObj [(''url'', JStr ''u'')])] JNull))"
proof -
  let ?ev = "[(''trigger_id'', JStr ''t1''), (''link'', JObj [(''url'', JStr ''u'')])]"
  obtain p where p: "payload ?ev = Inr p"
    by (simp add: payload_def dict_getitem_def)
  have a: "api_call_raises api_down ''entity.presentDetails'' p = Some (ExternalError ''not_authed'')"
    by (simp add: api_down_def quiet_def)
  from present_details_failure_swallowed [OF p a] show ?thesis .
qed

end
